theory Spec2Isabelle
  imports Main "HOL-Library.Sublist" "HOL-Library.Char_ord" "HOL-Library.List_Lexorder"
begin

section \<open>The proxy log console (ProxyDetailedLogsDialog.tsx)\<close>

text \<open>
  A shallow embedding of the stateful part of the React component
  \<^verbatim>\<open>ProxyDetailedLogsDialog\<close>: the log snapshot, the filter, the category options, the
  export text and the fetch-and-poll life cycle.

  Strings are \<^typ>\<open>string\<close>: a \<^typ>\<open>char\<close> stands for a UTF-16 code unit below 256, so
  the model covers the texts written in ASCII and Latin-1; texts with other characters
  are outside it. The JavaScript built-ins the component calls are modelled on that
  type: \<^verbatim>\<open>toLowerCase\<close> lowers the cased letters of that range, \<^verbatim>\<open>includes\<close> is the
  contiguous substring test, \<^verbatim>\<open>join\<close> is \<^verbatim>\<open>Array.prototype.join\<close>, and the default
  \<^verbatim>\<open>sort\<close> of an array of strings is the ascending lexicographic order on code units.
\<close>

subsection \<open>JavaScript values and built-ins\<close>

text \<open>
  The field \<^verbatim>\<open>data?: unknown\<close> holds any value that crosses the IPC boundary. The model
  has the JSON values. \<open>JNum n\<close> stands for the number \<open>n\<close> when \<open>n\<close> is a safe integer
  (\<open>|n| < 2^53\<close>), which JavaScript prints in plain decimal; fractions, \<^verbatim>\<open>NaN\<close>, the
  infinities and integers beyond that range (printed in exponent form from \<open>10^21\<close> on)
  are outside the model. An object is the list of its properties in enumeration order;
  a value is a finite tree, so \<^verbatim>\<open>JSON.stringify\<close> does not throw on it.
\<close>

datatype json =
    JNull
  | JBool bool
  | JNum int
  | JStr string
  | JArr "json list"
  | JObj "(string \<times> json) list"

text \<open>\<^verbatim>\<open>ToBoolean\<close>: what \<^verbatim>\<open>x ? a : b\<close> and \<^verbatim>\<open>x && y\<close> test.\<close>

fun truthy :: "json \<Rightarrow> bool" where
  "truthy JNull = False"
| "truthy (JBool b) = b"
| "truthy (JNum n) = (n \<noteq> 0)"
| "truthy (JStr s) = (s \<noteq> [])"
| "truthy (JArr xs) = True"
| "truthy (JObj kvs) = True"

text \<open>An optional field: \<open>None\<close> is \<^verbatim>\<open>undefined\<close>, which is falsy.\<close>

fun truthy_opt :: "json option \<Rightarrow> bool" where
  "truthy_opt None = False"
| "truthy_opt (Some v) = truthy v"

text \<open>\<^verbatim>\<open>xs.join(sep)\<close> on an array of strings.\<close>

fun join :: "string \<Rightarrow> string list \<Rightarrow> string" where
  "join sep [] = []"
| "join sep [x] = x"
| "join sep (x # y # ys) = x @ sep @ join sep (y # ys)"

text \<open>\<^verbatim>\<open>s.includes(t)\<close>: \<open>t\<close> occurs in \<open>s\<close> as a contiguous run of characters.\<close>

fun includes_str :: "string \<Rightarrow> string \<Rightarrow> bool" where
  "includes_str [] t = (t = [])"
| "includes_str (c # s) t = (prefix t (c # s) \<or> includes_str s t)"

text \<open>
  \<^verbatim>\<open>s.toLowerCase()\<close> on code units below 256: \<open>A\<close> to \<open>Z\<close> (65 to 90) and the Latin-1
  capitals U+00C0 to U+00DE, without the multiplication sign U+00D7, move up by 32;
  every other code unit of the range is its own lowercase form.
\<close>

definition lower_char :: "char \<Rightarrow> char" where
  "lower_char c =
     (let n = (of_char c :: nat) in
      if (65 \<le> n \<and> n \<le> 90) \<or> (192 \<le> n \<and> n \<le> 222 \<and> n \<noteq> 215)
      then char_of (n + 32) else c)"

definition toLowerCase :: "string \<Rightarrow> string" where
  "toLowerCase s = map lower_char s"

text \<open>Decimal digits of a natural number, and \<^verbatim>\<open>String(n)\<close> for an integer \<open>n\<close>.\<close>

definition digit_char :: "nat \<Rightarrow> char" where
  "digit_char d = char_of (48 + d)"

fun digits :: "nat \<Rightarrow> string" where
  "digits n = (if n < 10 then [digit_char n] else digits (n div 10) @ [digit_char (n mod 10)])"

declare digits.simps [simp del]

definition num_to_string :: "int \<Rightarrow> string" where
  "num_to_string i = (if i < 0 then CHR ''-'' # digits (nat (- i)) else digits (nat i))"

text \<open>
  \<^verbatim>\<open>JSON.stringify\<close> with one argument. A string is quoted: the double quote and the
  backslash are escaped with a backslash, the control characters below \<open>0x20\<close> are
  written \<^verbatim>\<open>\b \t \n \f \r\<close> or \<^verbatim>\<open>\u00XX\<close> with lowercase hexadecimal digits, and
  every other character stands for itself. No white space is inserted, so the result is
  a single line.
\<close>

definition hex_char :: "nat \<Rightarrow> char" where
  "hex_char d = (if d < 10 then char_of (48 + d) else char_of (87 + d))"

definition escape_char :: "char \<Rightarrow> string" where
  "escape_char c =
     (let n = (of_char c :: nat) in
      if n = 0x22 then [CHR 0x5C, CHR 0x22]
      else if n = 0x5C then [CHR 0x5C, CHR 0x5C]
      else if n = 0x08 then [CHR 0x5C, CHR ''b'']
      else if n = 0x09 then [CHR 0x5C, CHR ''t'']
      else if n = 0x0A then [CHR 0x5C, CHR ''n'']
      else if n = 0x0C then [CHR 0x5C, CHR ''f'']
      else if n = 0x0D then [CHR 0x5C, CHR ''r'']
      else if n < 0x20 then [CHR 0x5C, CHR ''u'', CHR ''0'', CHR ''0'', hex_char (n div 16), hex_char (n mod 16)]
      else [c])"

definition quote :: "string \<Rightarrow> string" where
  "quote s = CHR 0x22 # concat (map escape_char s) @ [CHR 0x22]"

definition member_str :: "string \<times> string \<Rightarrow> string" where
  "member_str kv = quote (fst kv) @ CHR '':'' # snd kv"

primrec stringify :: "json \<Rightarrow> string" where
  "stringify JNull = ''null''"
| "stringify (JBool b) = (if b then ''true'' else ''false'')"
| "stringify (JNum n) = num_to_string n"
| "stringify (JStr s) = quote s"
| "stringify (JArr xs) = CHR ''['' # join '','' (map stringify xs) @ '']''"
| "stringify (JObj kvs) =
     CHR ''{'' # join '','' (map member_str (map (map_prod id stringify) kvs)) @ ''}''"

subsection \<open>Log entries and the component's state\<close>

text \<open>\<^verbatim>\<open>interface LogEntry\<close>; \<open>data\<close> is the optional field.\<close>

record LogEntry =
  timestamp :: string
  level :: string
  category :: string
  message :: string
  data :: "json option"

text \<open>
  The component's state: the \<^verbatim>\<open>open\<close> prop, the \<^verbatim>\<open>useState\<close> cells, the \<^verbatim>\<open>useRef\<close>
  cell \<open>pollIntervalRef\<close>, and the part of the environment the component acts on: whether
  it is mounted, the interval timers that are registered, the calls to \<^verbatim>\<open>window.api\<close>
  that have not settled yet, the number of \<^verbatim>\<open>proxyGetLogs\<close> calls made so far, and the
  lines written with \<^verbatim>\<open>console.error\<close>.
\<close>

datatype request = GetLogs bool | ClearLogs

record console =
  open_prop :: bool
  logs :: "LogEntry list"
  loading :: bool
  searchText :: string
  levelFilter :: string
  categoryFilter :: string
  autoScroll :: bool
  expandedLogs :: "nat set"
  pollIntervalRef :: "nat option"
  mounted :: bool
  intervals :: "nat set"
  next_timer :: nat
  pending :: "request list"
  getLogs_calls :: nat
  console_errors :: "string list"

text \<open>
  The state after the first render of a component mounted with \<^verbatim>\<open>open = false\<close>. Timer
  handles are positive integers, so the first one is 1.
\<close>

definition init :: console where
  "init = \<lparr> open_prop = False, logs = [], loading = False, searchText = [],
            levelFilter = ''all'', categoryFilter = ''all'', autoScroll = True,
            expandedLogs = {}, pollIntervalRef = None, mounted = True, intervals = {},
            next_timer = 1, pending = [], getLogs_calls = 0, console_errors = [] \<rparr>"

subsection \<open>Derived values: category options, the filtered view, the export text\<close>

text \<open>
  \<^verbatim>\<open>new Set(xs)\<close> followed by \<^verbatim>\<open>Array.from\<close>: the elements in the order of their first
  occurrence.
\<close>

definition set_add :: "'a list \<Rightarrow> 'a \<Rightarrow> 'a list" where
  "set_add acc x = (if x \<in> set acc then acc else acc @ [x])"

definition new_Set :: "'a list \<Rightarrow> 'a list" where
  "new_Set xs = foldl set_add [] xs"

text \<open>\<^verbatim>\<open>const categories = Array.from(new Set(logs.map(log => log.category))).sort()\<close>\<close>

definition categories :: "console \<Rightarrow> string list" where
  "categories s = sort (new_Set (map category (logs s)))"

text \<open>The callback of \<^verbatim>\<open>logs.filter\<close>, with its three early returns in order.\<close>

definition filter_callback :: "console \<Rightarrow> LogEntry \<Rightarrow> bool" where
  "filter_callback s log =
     (if levelFilter s \<noteq> ''all'' \<and> level log \<noteq> levelFilter s then False
      else if categoryFilter s \<noteq> ''all'' \<and> category log \<noteq> categoryFilter s then False
      else if searchText s \<noteq> [] then
        (let search = toLowerCase (searchText s) in
           includes_str (toLowerCase (message log)) search \<or>
           includes_str (toLowerCase (category log)) search \<or>
           (case data log of
              None \<Rightarrow> False
            | Some d \<Rightarrow> truthy d \<and> includes_str (toLowerCase (stringify d)) search))
      else True)"

definition filteredLogs :: "console \<Rightarrow> LogEntry list" where
  "filteredLogs s = filter (filter_callback s) (logs s)"

text \<open>
  The callback of \<^verbatim>\<open>logs.map\<close> in \<^verbatim>\<open>handleExportLogs\<close>: one line of the export. The
  suffix is guarded by \<^verbatim>\<open>log.data ? ... : ''\<close>.
\<close>

definition formatLine :: "LogEntry \<Rightarrow> string" where
  "formatLine log =
     (let dataStr = (case data log of
                       None \<Rightarrow> []
                     | Some d \<Rightarrow> if truthy d then '' | '' @ stringify d else [])
      in ''['' @ timestamp log @ ''] ['' @ level log @ ''] ['' @ category log @ ''] ''
           @ message log @ dataStr)"

text \<open>The \<open>content\<close> that \<^verbatim>\<open>handleExportLogs\<close> puts into the downloaded blob.\<close>

definition handleExportLogs :: "console \<Rightarrow> string" where
  "handleExportLogs s = join [CHR 0x0A] (map formatLine (logs s))"

text \<open>\<^verbatim>\<open>const hasData = log.data !== undefined && log.data !== null\<close> of the row renderer.\<close>

definition hasData :: "LogEntry \<Rightarrow> bool" where
  "hasData log = (data log \<noteq> None \<and> data log \<noteq> Some JNull)"

subsection \<open>State setters, effects and handlers\<close>

text \<open>A state setter of an unmounted component does nothing.\<close>

definition setLogs :: "LogEntry list \<Rightarrow> console \<Rightarrow> console" where
  "setLogs v s = (if mounted s then s\<lparr>logs := v\<rparr> else s)"

definition setLoading :: "bool \<Rightarrow> console \<Rightarrow> console" where
  "setLoading v s = (if mounted s then s\<lparr>loading := v\<rparr> else s)"

definition console_error :: "string \<Rightarrow> console \<Rightarrow> console" where
  "console_error msg s = s\<lparr>console_errors := console_errors s @ [msg]\<rparr>"

text \<open>
  \<^verbatim>\<open>loadLogs\<close> is an async function: a call runs up to the \<^verbatim>\<open>await\<close>, which issues
  \<^verbatim>\<open>window.api.proxyGetLogs()\<close>; the rest runs when that promise settles. The flag
  records whether the caller chained \<^verbatim>\<open>.finally(() => setLoading(false))\<close>.
\<close>

definition loadLogs_call :: "bool \<Rightarrow> console \<Rightarrow> console" where
  "loadLogs_call fin s =
     s\<lparr>pending := pending s @ [GetLogs fin], getLogs_calls := Suc (getLogs_calls s)\<rparr>"

datatype 'a settled = Fulfilled 'a | Rejected string

definition loadLogs_resume :: "LogEntry list settled \<Rightarrow> console \<Rightarrow> console" where
  "loadLogs_resume r s =
     (case r of
        Fulfilled result \<Rightarrow> setLogs result s
      | Rejected err \<Rightarrow> console_error (''Failed to load logs: '' @ err) s)"

definition handleClearLogs_call :: "console \<Rightarrow> console" where
  "handleClearLogs_call s = s\<lparr>pending := pending s @ [ClearLogs]\<rparr>"

definition handleClearLogs_resume :: "unit settled \<Rightarrow> console \<Rightarrow> console" where
  "handleClearLogs_resume r s =
     (case r of
        Fulfilled u \<Rightarrow> setLogs [] s
      | Rejected err \<Rightarrow> console_error (''Failed to clear logs: '' @ err) s)"

text \<open>
  The effect with dependencies \<^verbatim>\<open>[open, loadLogs]\<close>. Its clean-up tests the handle for
  truthiness before clearing it.
\<close>

definition effect_cleanup :: "console \<Rightarrow> console" where
  "effect_cleanup s =
     (case pollIntervalRef s of
        None \<Rightarrow> s
      | Some t \<Rightarrow>
          if t \<noteq> 0 then s\<lparr>intervals := intervals s - {t}, pollIntervalRef := None\<rparr> else s)"

definition effect_body :: "console \<Rightarrow> console" where
  "effect_body s =
     (if open_prop s then
        (let s1 = setLoading True s;
             s2 = loadLogs_call True s1;
             t = next_timer s2
         in s2\<lparr>intervals := insert t (intervals s2), next_timer := Suc t,
                pollIntervalRef := Some t\<rparr>)
      else s)"

definition toggleExpand :: "nat \<Rightarrow> console \<Rightarrow> console" where
  "toggleExpand index s =
     (if index \<in> expandedLogs s then s\<lparr>expandedLogs := expandedLogs s - {index}\<rparr>
      else s\<lparr>expandedLogs := insert index (expandedLogs s)\<rparr>)"

subsection \<open>The component as a transition system\<close>

text \<open>
  Everything runs on one thread, one reaction at a time. An event is a reaction: the
  parent changing the \<^verbatim>\<open>open\<close> prop, the component being unmounted, an interval timer
  firing, a pending \<^verbatim>\<open>window.api\<close> call settling, or the operator using a control of the
  dialog.
\<close>

datatype event =
    SetOpen bool
  | Unmount
  | IntervalFire nat
  | GetLogsSettled nat "LogEntry list settled"
  | ClearLogsSettled nat "unit settled"
  | ClickRefresh
  | ClickClear
  | ChangeSearch string
  | ChangeLevel string
  | ChangeCategory string
  | ToggleAutoScroll
  | ToggleExpand nat

text \<open>The dialog's controls exist only while \<^verbatim>\<open>if (!open) return null\<close> does not fire.\<close>

definition rendered :: "console \<Rightarrow> bool" where
  "rendered s = (mounted s \<and> open_prop s)"

definition level_options :: "string list" where
  "level_options = [''all'', ''ERROR'', ''WARN'', ''INFO'', ''DEBUG'']"

definition remove_nth :: "nat \<Rightarrow> 'a list \<Rightarrow> 'a list" where
  "remove_nth i xs = take i xs @ drop (Suc i) xs"

text \<open>
  \<^item> \<open>SetOpen\<close>: when the prop changes, the previous effect's clean-up runs, then the
    effect body with the new value; the re-render and its effect are one reaction.
  \<^item> \<open>Unmount\<close>: the clean-up runs and the component is gone.
  \<^item> \<open>IntervalFire t\<close>: the timer \<open>t\<close>, if still registered, calls \<^verbatim>\<open>loadLogs\<close>.
  \<^item> \<open>GetLogsSettled i r\<close>: the \<open>i\<close>-th pending call, a \<^verbatim>\<open>proxyGetLogs\<close>, settles with
    \<open>r\<close>; \<^verbatim>\<open>loadLogs\<close> resumes, then the \<^verbatim>\<open>finally\<close> handler if there is one.
  \<^item> \<open>ClearLogsSettled i r\<close>: likewise for \<^verbatim>\<open>proxyClearLogs\<close> and \<^verbatim>\<open>handleClearLogs\<close>.
  \<^item> the remaining events are the controls, with their \<^verbatim>\<open>disabled\<close> conditions; a
    dropdown offers only its options, and the expand button exists only for a visible
    row that has data.
\<close>

fun step :: "event \<Rightarrow> console \<Rightarrow> console" where
  "step (SetOpen b) s =
     (if mounted s \<and> b \<noteq> open_prop s
      then effect_body (effect_cleanup (s\<lparr>open_prop := b\<rparr>)) else s)"
| "step Unmount s =
     (if mounted s then (effect_cleanup s)\<lparr>mounted := False\<rparr> else s)"
| "step (IntervalFire t) s =
     (if t \<in> intervals s then loadLogs_call False s else s)"
| "step (GetLogsSettled i r) s =
     (if i < length (pending s) then
        (case pending s ! i of
           GetLogs fin \<Rightarrow>
             (let s1 = s\<lparr>pending := remove_nth i (pending s)\<rparr>;
                  s2 = loadLogs_resume r s1
              in if fin then setLoading False s2 else s2)
         | ClearLogs \<Rightarrow> s)
      else s)"
| "step (ClearLogsSettled i r) s =
     (if i < length (pending s) then
        (case pending s ! i of
           GetLogs fin \<Rightarrow> s
         | ClearLogs \<Rightarrow> handleClearLogs_resume r (s\<lparr>pending := remove_nth i (pending s)\<rparr>))
      else s)"
| "step ClickRefresh s =
     (if rendered s \<and> \<not> loading s then loadLogs_call False s else s)"
| "step ClickClear s =
     (if rendered s \<and> logs s \<noteq> [] then handleClearLogs_call s else s)"
| "step (ChangeSearch v) s =
     (if rendered s then s\<lparr>searchText := v\<rparr> else s)"
| "step (ChangeLevel v) s =
     (if rendered s \<and> v \<in> set level_options then s\<lparr>levelFilter := v\<rparr> else s)"
| "step (ChangeCategory v) s =
     (if rendered s \<and> v \<in> set (''all'' # categories s) then s\<lparr>categoryFilter := v\<rparr> else s)"
| "step ToggleAutoScroll s =
     (if rendered s then s\<lparr>autoScroll := \<not> autoScroll s\<rparr> else s)"
| "step (ToggleExpand i) s =
     (if rendered s \<and> i < length (filteredLogs s) \<and> hasData (filteredLogs s ! i)
      then toggleExpand i s else s)"

text \<open>An execution: the events in the order they happen.\<close>

fun run :: "event list \<Rightarrow> console \<Rightarrow> console" where
  "run [] s = s"
| "run (e # es) s = run es (step e s)"

text \<open>
  What ties a registered timer to the handle the component holds: the only registered
  timer is the one in \<open>pollIntervalRef\<close>, that handle is positive, handles above the
  next one do not exist yet, and a component that is hidden or gone holds none.
\<close>

definition timer_inv :: "console \<Rightarrow> bool" where
  "timer_inv s =
     (0 < next_timer s \<and>
      (case pollIntervalRef s of
         None \<Rightarrow> intervals s = {}
       | Some t \<Rightarrow> 0 < t \<and> t < next_timer s \<and> intervals s = {t} \<and> rendered s))"

text \<open>
  What a failed call must leave alone for the console to stay usable: the snapshot, the
  criteria, the expansion set, visibility and the poll timer are as before, and the
  \<open>loading\<close> flag, which disables the refresh button, is not raised.
\<close>

definition failure_frame :: "console \<Rightarrow> console \<Rightarrow> bool" where
  "failure_frame s s' =
     (logs s' = logs s \<and> searchText s' = searchText s \<and> levelFilter s' = levelFilter s \<and>
      categoryFilter s' = categoryFilter s \<and> autoScroll s' = autoScroll s \<and>
      expandedLogs s' = expandedLogs s \<and> open_prop s' = open_prop s \<and>
      mounted s' = mounted s \<and> pollIntervalRef s' = pollIntervalRef s \<and>
      intervals s' = intervals s \<and> (loading s' \<longrightarrow> loading s))"

text \<open>The seven \<^verbatim>\<open>useState\<close> cells of the component are the same in both states.\<close>

definition same_cells :: "console \<Rightarrow> console \<Rightarrow> bool" where
  "same_cells s s' =
     (logs s' = logs s \<and> loading s' = loading s \<and> searchText s' = searchText s \<and>
      levelFilter s' = levelFilter s \<and> categoryFilter s' = categoryFilter s \<and>
      autoScroll s' = autoScroll s \<and> expandedLogs s' = expandedLogs s)"

text \<open>Sample entries used in the examples below.\<close>

definition entry_auth :: LogEntry where
  "entry_auth = \<lparr> timestamp = ''2024-01-01T00:00:00.000Z'', level = ''ERROR'',
                  category = ''auth'', message = ''failed'',
                  data = Some (JObj [(''code'', JNum 401)]) \<rparr>"

definition entry_plain :: LogEntry where
  "entry_plain = \<lparr> timestamp = ''T'', level = ''INFO'', category = ''proxy'',
                   message = ''Error connecting'', data = None \<rparr>"

definition entry_zero :: LogEntry where
  "entry_zero = \<lparr> timestamp = ''T'', level = ''INFO'', category = ''proxy'',
                  message = ''retries'', data = Some (JNum 0) \<rparr>"

definition entry_cat :: "string \<Rightarrow> LogEntry" where
  "entry_cat c = \<lparr> timestamp = ''T'', level = ''INFO'', category = c,
                   message = ''m'', data = None \<rparr>"

text \<open>
  Two sample executions. In the first the console is shown, the first fetch succeeds, the
  operator selects the level \<open>ERROR\<close> and expands row 0, and the poll timer fires: a fetch
  is in flight. In the second the console is shown, the timer fires, the timer's fetch
  succeeds while the first fetch is still in flight, and the operator clicks Clear.
\<close>

definition sample_polling :: console where
  "sample_polling =
     run [SetOpen True, GetLogsSettled 0 (Fulfilled [entry_auth]), ChangeLevel ''ERROR'',
          ToggleExpand 0, IntervalFire 1] init"

definition sample_clearing :: console where
  "sample_clearing =
     run [SetOpen True, IntervalFire 1, GetLogsSettled 1 (Fulfilled [entry_auth]), ClickClear] init"

section \<open>Properties\<close>

subsection \<open>Facts about the built-ins\<close>

lemma includes_str_sublist: "includes_str s t \<longleftrightarrow> sublist t s"
  by (induction s) (auto simp: sublist_Cons_right)

lemma set_foldl_set_add: "set (foldl set_add acc xs) = set acc \<union> set xs"
  by (induction xs arbitrary: acc) (auto simp: set_add_def)

lemma distinct_foldl_set_add: "distinct acc \<Longrightarrow> distinct (foldl set_add acc xs)"
  by (induction xs arbitrary: acc) (auto simp: set_add_def)

lemma set_new_Set: "set (new_Set xs) = set xs"
  by (simp add: new_Set_def set_foldl_set_add)

lemma distinct_new_Set: "distinct (new_Set xs)"
  by (simp add: new_Set_def distinct_foldl_set_add)

lemma set_categories: "set (categories s) = category ` set (logs s)"
  by (simp add: categories_def set_new_Set)

lemma categories_example:
  "categories (init\<lparr>logs := map entry_cat [''b'', ''a'', ''a'', ''c'']\<rparr>) = [''a'', ''b'', ''c'']"
  by code_simp

subsection \<open>The filtered view\<close>

text \<open>
  C5. For every snapshot and every filter criteria, the filtered view is a subsequence
  of the snapshot: each visible entry is an entry of the snapshot, and the visible
  entries keep the relative order they have in the snapshot.
\<close>

theorem filteredLogs_subseq:
  "subseq (filteredLogs s) (logs s) \<and> set (filteredLogs s) \<subseteq> set (logs s)"
  by (simp add: filteredLogs_def)

text \<open>
  C6. With the identity criteria (level \<open>all\<close>, category \<open>all\<close>, empty search text) the
  filtered view is the snapshot itself.
\<close>

theorem filteredLogs_identity:
  "filteredLogs (s\<lparr>levelFilter := ''all'', categoryFilter := ''all'', searchText := []\<rparr>) = logs s"
  by (simp add: filteredLogs_def filter_callback_def)

text \<open>
  C10. Every category offered by the category dropdown is the category of some entry of
  the snapshot, so selecting it (with level \<open>all\<close> and an empty search text) leaves a
  non-empty filtered view.
\<close>

theorem category_option_nonempty:
  assumes "c \<in> set (categories s)"
  shows "filteredLogs (s\<lparr>levelFilter := ''all'', categoryFilter := c, searchText := []\<rparr>) \<noteq> []"
proof -
  from assms obtain e where e: "e \<in> set (logs s)" "category e = c"
    by (auto simp: set_categories)
  have "filter_callback (s\<lparr>levelFilter := ''all'', categoryFilter := c, searchText := []\<rparr>) e"
    using e(2) by (simp add: filter_callback_def)
  with e(1) have "e \<in> set (filteredLogs (s\<lparr>levelFilter := ''all'', categoryFilter := c, searchText := []\<rparr>))"
    by (simp add: filteredLogs_def)
  then show ?thesis by auto
qed

theorem category_option_nonempty_witness:
  "''a'' \<in> set (categories (init\<lparr>logs := map entry_cat [''b'', ''a'', ''a'', ''c'']\<rparr>)) \<and>
   filteredLogs (init\<lparr>logs := map entry_cat [''b'', ''a'', ''a'', ''c''],
      levelFilter := ''all'', categoryFilter := ''a'', searchText := []\<rparr>) \<noteq> []"
proof -
  have h: "''a'' \<in> set (categories (init\<lparr>logs := map entry_cat [''b'', ''a'', ''a'', ''c'']\<rparr>))"
    by (simp add: set_categories entry_cat_def)
  from category_option_nonempty [OF h] h show ?thesis by simp
qed

subsection \<open>The category options\<close>

text \<open>
  C8. The category options are the distinct category values of the full snapshot,
  whatever the filter criteria are: the list is sorted ascending in the lexicographic
  order of strings, has no duplicates, and holds exactly the categories that occur in
  the snapshot. The categories \<open>b, a, a, c\<close> give the options \<open>a, b, c\<close>.
\<close>

theorem categories_sorted_distinct:
  "sorted (categories s) \<and> distinct (categories s) \<and>
   set (categories s) = category ` set (logs s) \<and>
   categories (s\<lparr>searchText := a, levelFilter := b, categoryFilter := c\<rparr>) = categories s \<and>
   categories (init\<lparr>logs := map entry_cat [''b'', ''a'', ''a'', ''c'']\<rparr>) = [''a'', ''b'', ''c'']"
proof -
  have "sorted (categories s)" by (simp add: categories_def)
  moreover have "distinct (categories s)" by (simp add: categories_def distinct_new_Set)
  moreover have "categories (s\<lparr>searchText := a, levelFilter := b, categoryFilter := c\<rparr>) = categories s"
    by (simp add: categories_def)
  ultimately show ?thesis using set_categories categories_example by blast
qed

subsection \<open>The export text\<close>

lemma formatLine_scenario:
  "formatLine entry_auth =
     ''[2024-01-01T00:00:00.000Z] [ERROR] [auth] failed | {'' @ [CHR 0x22] @ ''code'' @ [CHR 0x22] @ '':401}''"
  by code_simp

lemma formatLine_no_data:
  "data e = None \<Longrightarrow>
   formatLine e = ''['' @ timestamp e @ ''] ['' @ level e @ ''] ['' @ category e @ ''] '' @ message e"
  by (simp add: formatLine_def)

lemma formatLine_truthy_data:
  "data e = Some d \<Longrightarrow> truthy d \<Longrightarrow>
   formatLine e = ''['' @ timestamp e @ ''] ['' @ level e @ ''] ['' @ category e @ ''] '' @ message e
                    @ '' | '' @ stringify d"
  by (simp add: formatLine_def)

lemma formatLine_not_truthy_data:
  "data e = Some d \<Longrightarrow> \<not> truthy d \<Longrightarrow>
   formatLine e = ''['' @ timestamp e @ ''] ['' @ level e @ ''] ['' @ category e @ ''] '' @ message e"
  by (simp add: formatLine_def)

text \<open>
  C7. The line of an entry is \<open>[timestamp] [level] [category] message\<close>, followed by
  \<open> | \<close> and the JSON text of \<open>data\<close> when \<open>data\<close> is present. The export guards the
  suffix with the truthiness of \<open>data\<close>, so a payload that is present but falsy is left
  out: the entry whose \<open>data\<close> is the number 0, which the row renderer counts as data
  (\<open>hasData\<close>) and whose JSON text is \<open>0\<close>, is exported without any suffix.
\<close>

theorem formatLine_falsy_data:
  "data entry_zero = Some (JNum 0) \<and> hasData entry_zero \<and> stringify (JNum 0) = ''0'' \<and>
   formatLine entry_zero = ''[T] [INFO] [proxy] retries''"
  by code_simp

text \<open>
  C1, as amended. The export is the newline-join of the lines of all entries of the
  full snapshot, in snapshot order, whatever the filter criteria are; it is the join
  over the filtered view when the criteria are the identity criteria.
\<close>

theorem export_full_snapshot:
  "handleExportLogs s = join [CHR 0x0A] (map formatLine (logs s)) \<and>
   handleExportLogs (s\<lparr>searchText := a, levelFilter := b, categoryFilter := c\<rparr>) = handleExportLogs s \<and>
   handleExportLogs (s\<lparr>levelFilter := ''all'', categoryFilter := ''all'', searchText := []\<rparr>) =
     join [CHR 0x0A] (map formatLine
       (filteredLogs (s\<lparr>levelFilter := ''all'', categoryFilter := ''all'', searchText := []\<rparr>)))"
  by (simp add: handleExportLogs_def filteredLogs_def filter_callback_def)

text \<open>
  C1 as stated fails: with one \<open>INFO\<close> entry in the snapshot and the level filter set to
  \<open>ERROR\<close> the filtered view is empty, so the join over it is the empty text, and the
  export still holds the entry's line.
\<close>

theorem export_filtered_counterexample:
  "filteredLogs (init\<lparr>logs := [entry_plain], levelFilter := ''ERROR''\<rparr>) = [] \<and>
   join [CHR 0x0A] (map formatLine
     (filteredLogs (init\<lparr>logs := [entry_plain], levelFilter := ''ERROR''\<rparr>))) = [] \<and>
   handleExportLogs (init\<lparr>logs := [entry_plain], levelFilter := ''ERROR''\<rparr>) =
     ''[T] [INFO] [proxy] Error connecting''"
  by code_simp

subsection \<open>The text criterion\<close>

lemma filter_callback_text:
  assumes "levelFilter s = ''all''" "categoryFilter s = ''all''" "searchText s \<noteq> []"
  shows "filter_callback s e \<longleftrightarrow>
     sublist (toLowerCase (searchText s)) (toLowerCase (message e)) \<or>
     sublist (toLowerCase (searchText s)) (toLowerCase (category e)) \<or>
     (\<exists>d. data e = Some d \<and> truthy d \<and>
          sublist (toLowerCase (searchText s)) (toLowerCase (stringify d)))"
  using assms by (auto simp: filter_callback_def includes_str_sublist Let_def split: option.splits)

lemma search_case_insensitive:
  "filteredLogs (init\<lparr>logs := [entry_plain], searchText := ''ERR''\<rparr>) = [entry_plain]"
  by code_simp

text \<open>
  C3. With a non-empty search text an entry passes the text criterion iff the lowercase
  search text occurs in the lowercase message, the lowercase category or, when \<open>data\<close>
  is present, the lowercase JSON text of \<open>data\<close>. The filter guards the third test with
  the truthiness of \<open>data\<close>: the entry whose \<open>data\<close> is the number 0 has the JSON text
  \<open>0\<close>, which contains the search text \<open>0\<close>, and is filtered out all the same.
\<close>

theorem search_falsy_data:
  "data entry_zero = Some (JNum 0) \<and> hasData entry_zero \<and>
   includes_str (toLowerCase (stringify (JNum 0))) (toLowerCase ''0'') \<and>
   filteredLogs (init\<lparr>logs := [entry_zero], levelFilter := ''all'', categoryFilter := ''all'',
                     searchText := ''0''\<rparr>) = []"
  by code_simp

subsection \<open>The life cycle: polling, fetch completion, clear\<close>

lemmas handler_defs =
  setLogs_def setLoading_def console_error_def loadLogs_call_def loadLogs_resume_def
  handleClearLogs_call_def handleClearLogs_resume_def effect_cleanup_def effect_body_def
  toggleExpand_def

lemma timer_inv_init: "timer_inv init"
  by (simp add: timer_inv_def init_def)

lemma timer_inv_step: "timer_inv s \<Longrightarrow> timer_inv (step ev s)"
  by (cases ev)
     (auto simp: timer_inv_def rendered_def handler_defs Let_def
           split: option.splits request.splits settled.splits if_splits)

lemma timer_inv_run: "timer_inv s \<Longrightarrow> timer_inv (run evs s)"
  by (induction evs arbitrary: s) (simp_all add: timer_inv_step)

lemma hidden_no_timer: "timer_inv s \<Longrightarrow> \<not> rendered s \<Longrightarrow> intervals s = {}"
  by (auto simp: timer_inv_def split: option.splits)

lemma hidden_step_no_call:
  "intervals s = {} \<Longrightarrow> \<not> rendered s \<Longrightarrow> ev \<noteq> SetOpen True \<Longrightarrow>
   getLogs_calls (step ev s) = getLogs_calls s"
  by (cases ev)
     (auto simp: rendered_def handler_defs Let_def
           split: option.splits request.splits settled.splits if_splits)

lemma unmounted_step_cells: "\<not> mounted s \<Longrightarrow> same_cells s (step ev s)"
  unfolding same_cells_def
  by (cases ev)
     (auto simp: rendered_def handler_defs Let_def
           split: option.splits request.splits settled.splits if_splits)

lemma getLogs_fulfilled_logs:
  "mounted s \<Longrightarrow> i < length (pending s) \<Longrightarrow> pending s ! i = GetLogs fin \<Longrightarrow>
   logs (step (GetLogsSettled i (Fulfilled result)) s) = result"
  by (auto simp: handler_defs Let_def)

lemma getLogs_rejected_logs: "logs (step (GetLogsSettled i (Rejected err)) s) = logs s"
  by (auto simp: handler_defs Let_def split: request.splits)


text \<open>
  C9. A fetch that completes replaces the snapshot wholesale and touches neither the
  filter criteria (search text, level filter, category filter) nor the expansion set:
  expanded positions are kept as they are, whatever the new snapshot holds.
\<close>

theorem fetch_keeps_criteria_and_expansion:
  "searchText (step (GetLogsSettled i r) s) = searchText s \<and>
   levelFilter (step (GetLogsSettled i r) s) = levelFilter s \<and>
   categoryFilter (step (GetLogsSettled i r) s) = categoryFilter s \<and>
   expandedLogs (step (GetLogsSettled i r) s) = expandedLogs s \<and>
   (mounted s \<and> i < length (pending s) \<and> pending s ! i = GetLogs fin \<longrightarrow>
      logs (step (GetLogsSettled i (Fulfilled result)) s) = result)"
  by (auto simp: handler_defs Let_def split: request.splits settled.splits)

theorem fetch_keeps_criteria_and_expansion_witness:
  "mounted sample_polling \<and> 0 < length (pending sample_polling) \<and>
   pending sample_polling ! 0 = GetLogs False \<and>
   logs sample_polling = [entry_auth] \<and>
   logs (step (GetLogsSettled 0 (Fulfilled [entry_plain])) sample_polling) = [entry_plain] \<and>
   searchText (step (GetLogsSettled 0 (Fulfilled [entry_plain])) sample_polling) = [] \<and>
   levelFilter (step (GetLogsSettled 0 (Fulfilled [entry_plain])) sample_polling) = ''ERROR'' \<and>
   categoryFilter (step (GetLogsSettled 0 (Fulfilled [entry_plain])) sample_polling) = ''all'' \<and>
   expandedLogs (step (GetLogsSettled 0 (Fulfilled [entry_plain])) sample_polling) = {0}"
proof -
  have h: "mounted sample_polling \<and> 0 < length (pending sample_polling) \<and>
           pending sample_polling ! 0 = GetLogs False \<and>
           logs sample_polling = [entry_auth] \<and> searchText sample_polling = [] \<and>
           levelFilter sample_polling = ''ERROR'' \<and> categoryFilter sample_polling = ''all'' \<and>
           expandedLogs sample_polling = {0}"
    by code_simp
  from fetch_keeps_criteria_and_expansion
         [of 0 "Fulfilled [entry_plain]" sample_polling False "[entry_plain]"] h
  show ?thesis by metis
qed

text \<open>
  C4. When a clear call succeeds the snapshot becomes empty in that same reaction,
  without any fetch. When a fetch or a clear call fails, the snapshot is exactly as it
  was, and so are the criteria, the expansion set, visibility and the poll timer; the
  \<open>loading\<close> flag is not raised, so no control becomes blocked.
\<close>

theorem clear_resets_failures_keep:
  "(mounted s \<and> i < length (pending s) \<and> pending s ! i = ClearLogs \<longrightarrow>
      logs (step (ClearLogsSettled i (Fulfilled ())) s) = [] \<and>
      getLogs_calls (step (ClearLogsSettled i (Fulfilled ())) s) = getLogs_calls s) \<and>
   failure_frame s (step (GetLogsSettled i (Rejected err)) s) \<and>
   failure_frame s (step (ClearLogsSettled i (Rejected err)) s)"
  by (auto simp: failure_frame_def handler_defs Let_def split: request.splits)

theorem clear_resets_failures_keep_witness:
  "mounted sample_clearing \<and> 1 < length (pending sample_clearing) \<and>
   pending sample_clearing ! 0 = GetLogs True \<and> pending sample_clearing ! 1 = ClearLogs \<and>
   logs sample_clearing = [entry_auth] \<and> loading sample_clearing \<and>
   logs (step (ClearLogsSettled 1 (Fulfilled ())) sample_clearing) = [] \<and>
   getLogs_calls (step (ClearLogsSettled 1 (Fulfilled ())) sample_clearing)
     = getLogs_calls sample_clearing \<and>
   logs (step (ClearLogsSettled 1 (Rejected ''offline'')) sample_clearing) = [entry_auth] \<and>
   loading (step (ClearLogsSettled 1 (Rejected ''offline'')) sample_clearing) \<and>
   logs (step (GetLogsSettled 0 (Rejected ''offline'')) sample_clearing) = [entry_auth] \<and>
   \<not> loading (step (GetLogsSettled 0 (Rejected ''offline'')) sample_clearing)"
proof -
  have h: "mounted sample_clearing \<and> 1 < length (pending sample_clearing) \<and>
           pending sample_clearing ! 0 = GetLogs True \<and> pending sample_clearing ! 1 = ClearLogs \<and>
           logs sample_clearing = [entry_auth] \<and> loading sample_clearing \<and>
           loading (step (ClearLogsSettled 1 (Rejected ''offline'')) sample_clearing) \<and>
           \<not> loading (step (GetLogsSettled 0 (Rejected ''offline'')) sample_clearing)"
    by code_simp
  from clear_resets_failures_keep [of sample_clearing 1 "''offline''"]
       clear_resets_failures_keep [of sample_clearing 0 "''offline''"] h
  show ?thesis unfolding failure_frame_def by metis
qed

text \<open>
  C2, as amended. In every execution, while the console is hidden or torn down no timer
  is registered and no reaction other than showing the console again issues a fetch.
  After teardown no reaction, the completion of an in-flight fetch included, changes any
  state cell of the component: the snapshot, the \<open>loading\<close> flag, the criteria, the
  auto-scroll flag and the expansion set stay as they were. While the console is hidden
  but still mounted, a fetch that was in flight and succeeds does replace the snapshot
  with its result; one that fails leaves the snapshot as it was.
\<close>

theorem hidden_no_fetch_stale_applied:
  "(\<not> rendered (run evs init) \<and> ev \<noteq> SetOpen True \<longrightarrow>
      intervals (run evs init) = {} \<and>
      getLogs_calls (step ev (run evs init)) = getLogs_calls (run evs init)) \<and>
   (\<not> mounted s \<longrightarrow> same_cells s (step ev s)) \<and>
   (mounted s \<and> i < length (pending s) \<and> pending s ! i = GetLogs fin \<longrightarrow>
      logs (step (GetLogsSettled i (Fulfilled result)) s) = result) \<and>
   logs (step (GetLogsSettled i (Rejected err)) s) = logs s"
proof -
  have inv: "timer_inv (run evs init)"
    by (rule timer_inv_run) (rule timer_inv_init)
  have "intervals (run evs init) = {} \<and>
        getLogs_calls (step ev (run evs init)) = getLogs_calls (run evs init)"
    if "\<not> rendered (run evs init)" "ev \<noteq> SetOpen True"
    using that hidden_no_timer [OF inv] hidden_step_no_call by blast
  then show ?thesis
    using unmounted_step_cells getLogs_fulfilled_logs getLogs_rejected_logs by blast
qed

theorem hidden_no_fetch_stale_applied_witness:
  "\<not> rendered (run [SetOpen True, SetOpen False] init) \<and>
   IntervalFire 1 \<noteq> SetOpen True \<and>
   intervals (run [SetOpen True, SetOpen False] init) = {} \<and>
   getLogs_calls (step (IntervalFire 1) (run [SetOpen True, SetOpen False] init))
     = getLogs_calls (run [SetOpen True, SetOpen False] init) \<and>
   \<not> mounted (run [SetOpen True, Unmount] init) \<and>
   pending (run [SetOpen True, Unmount] init) = [GetLogs True] \<and>
   loading (run [SetOpen True, Unmount] init) \<and>
   logs (step (GetLogsSettled 0 (Fulfilled [entry_plain])) (run [SetOpen True, Unmount] init)) = [] \<and>
   loading (step (GetLogsSettled 0 (Fulfilled [entry_plain])) (run [SetOpen True, Unmount] init)) \<and>
   same_cells (run [SetOpen True, Unmount] init)
     (step (GetLogsSettled 0 (Fulfilled [entry_plain])) (run [SetOpen True, Unmount] init)) \<and>
   mounted (run [SetOpen True, SetOpen False] init) \<and>
   0 < length (pending (run [SetOpen True, SetOpen False] init)) \<and>
   pending (run [SetOpen True, SetOpen False] init) ! 0 = GetLogs True \<and>
   logs (step (GetLogsSettled 0 (Fulfilled [entry_plain])) (run [SetOpen True, SetOpen False] init))
     = [entry_plain]"
proof -
  have h1: "\<not> rendered (run [SetOpen True, SetOpen False] init)" by code_simp
  have h2: "IntervalFire 1 \<noteq> SetOpen True" by simp
  have h3: "\<not> mounted (run [SetOpen True, Unmount] init) \<and>
            pending (run [SetOpen True, Unmount] init) = [GetLogs True] \<and>
            loading (run [SetOpen True, Unmount] init) \<and>
            logs (run [SetOpen True, Unmount] init) = []" by code_simp
  have h4: "mounted (run [SetOpen True, SetOpen False] init) \<and>
            0 < length (pending (run [SetOpen True, SetOpen False] init)) \<and>
            pending (run [SetOpen True, SetOpen False] init) ! 0 = GetLogs True" by code_simp
  from hidden_no_fetch_stale_applied
         [of "[SetOpen True, SetOpen False]" "IntervalFire 1"
             "run [SetOpen True, SetOpen False] init" 0 True "[entry_plain]"]
       hidden_no_fetch_stale_applied
         [of "[]" "GetLogsSettled 0 (Fulfilled [entry_plain])"
             "run [SetOpen True, Unmount] init" 0 True "[]"]
       h1 h2 h3 h4
  show ?thesis unfolding same_cells_def by metis
qed

text \<open>
  C2 as stated fails: the console is shown (the first fetch starts), then hidden while
  that fetch is in flight; the timer is cancelled, and when the fetch succeeds its
  result is stored in the snapshot of the hidden console.
\<close>

theorem hidden_discards_nothing_counterexample:
  "\<not> open_prop (run [SetOpen True, SetOpen False] init) \<and>
   pending (run [SetOpen True, SetOpen False] init) = [GetLogs True] \<and>
   pollIntervalRef (run [SetOpen True, SetOpen False] init) = None \<and>
   logs (run [SetOpen True, SetOpen False] init) = [] \<and>
   logs (run [SetOpen True, SetOpen False, GetLogsSettled 0 (Fulfilled [entry_plain])] init)
     = [entry_plain] \<and>
   \<not> open_prop (run [SetOpen True, SetOpen False, GetLogsSettled 0 (Fulfilled [entry_plain])] init)"
  by code_simp

end
